theory Spec2Isabelle
  imports Main
begin

section \<open>Values, exceptions and console output\<close>

text \<open>
  The repository is a data-access object \<open>Users\<close> over one DynamoDB table
  (\<^verbatim>\<open>src/dynamoDB/users.py\<close>). Every method is one call to the remote service wrapped
  in a \<^verbatim>\<open>try\<close> block. The model keeps the two things the methods decide themselves:
  what request they send, and what they do with the outcome (return, sentinel, log,
  re-raise, rebinding of \<^verbatim>\<open>self.table\<close>). The remote service is a parameter.
\<close>

text \<open>Attribute values as the methods receive and store them (scalars).\<close>

datatype pyval = PNone | PBool bool | PInt int | PStr string

text \<open>A record of the table, and the item or key dictionaries of a request.\<close>

type_synonym item = "string \<rightharpoonup> pyval"

text \<open>
  The exceptions (subclasses of \<^verbatim>\<open>Exception\<close>) a method body can meet:
  \<^verbatim>\<open>botocore.exceptions.ClientError\<close> with \<^verbatim>\<open>response['Error']['Code']\<close> and
  \<^verbatim>\<open>response['Error']['Message']\<close>; \<^verbatim>\<open>AttributeError\<close>, raised by a method call on
  \<^verbatim>\<open>self.table\<close> when it is \<^verbatim>\<open>None\<close>; \<^verbatim>\<open>KeyError\<close>, raised by subscripting a
  response that lacks the key; and any other exception that is not a \<^verbatim>\<open>ClientError\<close>
  (parameter validation or serialisation errors of the client library, a waiter
  that gave up), carried with its class name.
\<close>

datatype exn =
    ClientError string string
  | AttributeError
  | KeyError string
  | OtherError string

text \<open>
  What reaches the console, in order: calls of \<^verbatim>\<open>logger.error\<close> (format string and
  arguments) and calls of \<^verbatim>\<open>print\<close> (its arguments, where \<^verbatim>\<open>traceback.format_exc()\<close>
  is the traceback of the exception being handled).
\<close>

datatype printed = Lit string | Traceback exn

datatype event = LoggerError string "string list" | Print "printed list"

section \<open>The remote service\<close>

text \<open>A table resource \<^verbatim>\<open>dyn_resource.Table(name)\<close>.\<close>

datatype table = Table (tbl_name: string)

text \<open>The keyword arguments of \<^verbatim>\<open>dyn_resource.create_table\<close>.\<close>

record create_table_request =
  TableName :: string
  KeySchema :: "(string \<times> string) list"
  AttributeDefinitions :: "(string \<times> string) list"
  BillingMode :: string

text \<open>\<^verbatim>\<open>Key(attr).eq(value)\<close> and the keyword arguments of \<^verbatim>\<open>table.query\<close>.\<close>

datatype key_condition = KeyEq string pyval

record query_request =
  IndexName :: "string option"
  KeyConditionExpression :: key_condition

text \<open>The keyword arguments of \<^verbatim>\<open>table.update_item\<close>.\<close>

record update_request =
  Key :: item
  UpdateExpression :: string
  ExpressionAttributeValues :: "string \<rightharpoonup> pyval"
  ReturnValues :: string

text \<open>
  A response dictionary of the service, with the two entries the methods read;
  an entry that is \<open>None\<close> is absent from the dictionary.
\<close>

record response =
  Items :: "item list option"
  Attributes :: "item option"

text \<open>
  A remote call runs against the state \<open>'db\<close> of the service and either returns or
  raises. \<^verbatim>\<open>dyn_resource.tables.all()\<close> is a lazy collection: it yields tables and may
  raise while being iterated, so its outcome is the tables yielded and the exception
  that ended the iteration, if any.
\<close>

type_synonym ('a, 'db) call = "'db \<Rightarrow> (exn + 'a) \<times> 'db"

record 'db service =
  svc_load :: "table \<Rightarrow> (unit, 'db) call"
  svc_tables_all :: "'db \<Rightarrow> (table list \<times> exn option) \<times> 'db"
  svc_create_table :: "create_table_request \<Rightarrow> (table, 'db) call"
  svc_wait_until_exists :: "table \<Rightarrow> (unit, 'db) call"
  svc_delete :: "table \<Rightarrow> (unit, 'db) call"
  svc_put_item :: "table \<Rightarrow> item \<Rightarrow> (response, 'db) call"
  svc_query :: "table \<Rightarrow> query_request \<Rightarrow> (response, 'db) call"
  svc_update_item :: "table \<Rightarrow> update_request \<Rightarrow> (response, 'db) call"
  svc_delete_item :: "table \<Rightarrow> item \<Rightarrow> (response, 'db) call"

section \<open>The class \<open>Users\<close>\<close>

text \<open>
  The object's field \<^verbatim>\<open>self.table\<close> (\<open>None\<close> after \<^verbatim>\<open>delete_table\<close>), together with
  the console and the state of the remote service, which the methods also change.
\<close>

record 'db users =
  table :: "table option"
  console :: "event list"
  remote :: 'db

text \<open>\<^verbatim>\<open>__init__\<close>: binds the table named \<^verbatim>\<open>users\<close> without a remote call.\<close>

definition init :: "'db \<Rightarrow> 'db users" where
  "init db = \<lparr>table = Some (Table ''users''), console = [], remote = db\<rparr>"

text \<open>
  \<^verbatim>\<open>self.table.m(...)\<close>: an \<^verbatim>\<open>AttributeError\<close> when \<^verbatim>\<open>self.table\<close> is \<^verbatim>\<open>None\<close>,
  the remote call on the bound table otherwise.
\<close>

definition table_call :: "'db users \<Rightarrow> (table \<Rightarrow> ('a, 'db) call) \<Rightarrow> (exn + 'a) \<times> 'db users" where
  "table_call s m =
     (case table s of
        None \<Rightarrow> (Inl AttributeError, s)
      | Some t \<Rightarrow> (case m t (remote s) of (r, db) \<Rightarrow> (r, s\<lparr>remote := db\<rparr>)))"

text \<open>
  \<^verbatim>\<open>except ClientError as err: logger.error(fmt, ..., code, message); raise\<close>.
  An exception that is not a \<^verbatim>\<open>ClientError\<close> passes through the clause untouched.
\<close>

definition log_and_raise :: "string \<Rightarrow> string list \<Rightarrow> exn \<Rightarrow> 'db users \<Rightarrow> (exn + 'a) \<times> 'db users" where
  "log_and_raise fmt args e s =
     (case e of
        ClientError code msg \<Rightarrow>
          (Inl e, s\<lparr>console := console s @ [LoggerError fmt (args @ [code, msg])]\<rparr>)
      | _ \<Rightarrow> (Inl e, s))"

text \<open>\<^verbatim>\<open>except Exception: print(..., traceback.format_exc()); return None\<close>.\<close>

definition print_and_none :: "printed list \<Rightarrow> exn \<Rightarrow> 'db users \<Rightarrow> (exn + 'a option) \<times> 'db users" where
  "print_and_none prefix e s =
     (Inr None, s\<lparr>console := console s @ [Print (prefix @ [Traceback e])]\<rparr>)"

subsection \<open>Table management\<close>

definition exists :: "'db service \<Rightarrow> 'db users \<Rightarrow> (exn + bool) \<times> 'db users" where
  "exists svc s =
     (let tbl = Table ''users'' in
      case svc_load svc tbl (remote s) of
        (Inr u, db) \<Rightarrow> (Inr True, s\<lparr>table := Some tbl, remote := db\<rparr>)
      | (Inl (ClientError code msg), db) \<Rightarrow>
          (if code = ''ResourceNotFoundException'' then (Inr False, s\<lparr>remote := db\<rparr>)
           else (Inl (ClientError code msg),
                 s\<lparr>console := console s @
                      [LoggerError ''Couldn't check for existence of %s. Here's why: %s: %s''
                         [''users'', code, msg]],
                   remote := db\<rparr>))
      | (Inl e, db) \<Rightarrow> (Inl e, s\<lparr>remote := db\<rparr>))"

text \<open>The \<^verbatim>\<open>for\<close> loop of \<^verbatim>\<open>list_tables\<close>: prints each table's name and collects it.\<close>

fun list_tables_loop :: "table list \<Rightarrow> table list \<Rightarrow> event list \<Rightarrow> table list \<times> event list" where
  "list_tables_loop [] tables out = (tables, out)"
| "list_tables_loop (t # ts) tables out =
     list_tables_loop ts (tables @ [t]) (out @ [Print [Lit (tbl_name t)]])"

definition list_tables :: "'db service \<Rightarrow> 'db users \<Rightarrow> (exn + table list) \<times> 'db users" where
  "list_tables svc s =
     (case svc_tables_all svc (remote s) of
        ((yielded, err), db) \<Rightarrow>
          (case list_tables_loop yielded [] (console s) of
             (tables, out) \<Rightarrow>
               (case err of
                  None \<Rightarrow> (Inr tables, s\<lparr>console := out, remote := db\<rparr>)
                | Some e \<Rightarrow>
                    log_and_raise ''Couldn't list tables. Here's why: %s: %s'' [] e
                      (s\<lparr>console := out, remote := db\<rparr>))))"

definition create_table :: "'db service \<Rightarrow> string \<Rightarrow> 'db users \<Rightarrow> (exn + table) \<times> 'db users" where
  "create_table svc table_name s =
     (case svc_create_table svc
             \<lparr>TableName = table_name,
              KeySchema = [(''user_id'', ''HASH''), (''full_name'', ''RANGE'')],
              AttributeDefinitions = [(''user_id'', ''S''), (''full_name'', ''S'')],
              BillingMode = ''PAY_PER_REQUEST''\<rparr> (remote s) of
        (Inl e, db) \<Rightarrow>
          log_and_raise ''Couldn't create table %s. Here's why: %s: %s'' [table_name] e
            (s\<lparr>remote := db\<rparr>)
      | (Inr t, db) \<Rightarrow>
          (case svc_wait_until_exists svc t db of
             (Inl e, db') \<Rightarrow>
               log_and_raise ''Couldn't create table %s. Here's why: %s: %s'' [table_name] e
                 (s\<lparr>table := Some t, remote := db'\<rparr>)
           | (Inr u, db') \<Rightarrow> (Inr t, s\<lparr>table := Some t, remote := db'\<rparr>)))"

definition delete_table :: "'db service \<Rightarrow> 'db users \<Rightarrow> (exn + unit) \<times> 'db users" where
  "delete_table svc s =
     (case table_call s (svc_delete svc) of
        (Inr u, s') \<Rightarrow> (Inr (), s'\<lparr>table := None\<rparr>)
      | (Inl e, s') \<Rightarrow> log_and_raise ''Couldn't delete table. Here's why: %s: %s'' [] e s')"

subsection \<open>Records\<close>

text \<open>The \<^verbatim>\<open>Item\<close> that \<^verbatim>\<open>add_user\<close> passes to \<^verbatim>\<open>table.put_item\<close>.\<close>

definition add_user_item :: "pyval \<Rightarrow> pyval \<Rightarrow> item" where
  "add_user_item user_id full_name = [''user_id'' \<mapsto> user_id, ''full_name'' \<mapsto> full_name]"

definition add_user :: "'db service \<Rightarrow> pyval \<Rightarrow> pyval \<Rightarrow> 'db users \<Rightarrow> (exn + response option) \<times> 'db users" where
  "add_user svc user_id full_name s =
     (case table_call s (\<lambda>t. svc_put_item svc t (add_user_item user_id full_name)) of
        (Inr response, s') \<Rightarrow> (Inr (Some response), s')
      | (Inl e, s') \<Rightarrow> print_and_none [Lit ''ERROR: ''] e s')"

text \<open>\<^verbatim>\<open>return response['Items']\<close>, inside the \<^verbatim>\<open>try\<close> block.\<close>

definition return_items :: "printed list \<Rightarrow> (exn + response) \<times> 'db users \<Rightarrow> (exn + item list option) \<times> 'db users" where
  "return_items prefix r =
     (case r of
        (Inr response, s') \<Rightarrow>
          (case Items response of
             Some items \<Rightarrow> (Inr (Some items), s')
           | None \<Rightarrow> print_and_none prefix (KeyError ''Items'') s')
      | (Inl e, s') \<Rightarrow> print_and_none prefix e s')"

definition query_by_user_id :: "'db service \<Rightarrow> pyval \<Rightarrow> 'db users \<Rightarrow> (exn + item list option) \<times> 'db users" where
  "query_by_user_id svc user_id s =
     return_items [Lit ''ERROR: '']
       (table_call s
          (\<lambda>t. svc_query svc t
                 \<lparr>IndexName = None, KeyConditionExpression = KeyEq ''user_id'' user_id\<rparr>))"

definition query_by_user_name :: "'db service \<Rightarrow> pyval \<Rightarrow> 'db users \<Rightarrow> (exn + item list option) \<times> 'db users" where
  "query_by_user_name svc name s =
     return_items [Lit ''ERROR: '']
       (table_call s
          (\<lambda>t. svc_query svc t
                 \<lparr>IndexName = Some ''name-index'', KeyConditionExpression = KeyEq ''name'' name\<rparr>))"

text \<open>\<^verbatim>\<open>sep.join(xs)\<close> on strings.\<close>

fun join :: "string \<Rightarrow> string list \<Rightarrow> string" where
  "join sep [] = []"
| "join sep [x] = x"
| "join sep (x # y # ys) = x @ sep @ join sep (y # ys)"

text \<open>
  The \<^verbatim>\<open>for k, v in kwargs.items()\<close> loop of \<^verbatim>\<open>update_user\<close>. The keyword arguments
  are the dictionary's entries in insertion order.
\<close>

fun update_user_loop ::
  "(string \<times> pyval) list \<Rightarrow> string list \<Rightarrow> (string \<rightharpoonup> pyval) \<Rightarrow> string list \<times> (string \<rightharpoonup> pyval)" where
  "update_user_loop [] update_expression expression_attributes =
     (update_expression, expression_attributes)"
| "update_user_loop ((k, v) # kwargs) update_expression expression_attributes =
     update_user_loop kwargs
       (update_expression @ [k @ ''=:'' @ k])
       (expression_attributes('':'' @ k \<mapsto> v))"

text \<open>The arguments \<^verbatim>\<open>update_user\<close> passes to \<^verbatim>\<open>table.update_item\<close>.\<close>

definition update_item_args :: "pyval \<Rightarrow> pyval \<Rightarrow> (string \<times> pyval) list \<Rightarrow> update_request" where
  "update_item_args user_id full_name kwargs =
     (case update_user_loop kwargs [] Map.empty of
        (update_expression, expression_attributes) \<Rightarrow>
          \<lparr>Key = [''user_id'' \<mapsto> user_id, ''full_name'' \<mapsto> full_name],
           UpdateExpression = ''set '' @ join '', '' update_expression,
           ExpressionAttributeValues = expression_attributes,
           ReturnValues = ''UPDATED_NEW''\<rparr>)"

definition update_user ::
  "'db service \<Rightarrow> pyval \<Rightarrow> pyval \<Rightarrow> (string \<times> pyval) list \<Rightarrow> 'db users \<Rightarrow> (exn + item option) \<times> 'db users" where
  "update_user svc user_id full_name kwargs s =
     (case table_call s (\<lambda>t. svc_update_item svc t (update_item_args user_id full_name kwargs)) of
        (Inr response, s') \<Rightarrow>
          (case Attributes response of
             Some attrs \<Rightarrow> (Inr (Some attrs), s')
           | None \<Rightarrow> print_and_none [] (KeyError ''Attributes'') s')
      | (Inl e, s') \<Rightarrow> print_and_none [] e s')"

text \<open>
  \<^verbatim>\<open>delete_user_by_id\<close> has \<^verbatim>\<open>except ClientError\<close> where the other record methods have
  \<^verbatim>\<open>except Exception\<close>: any other exception leaves the method.
\<close>

definition delete_user_by_id :: "'db service \<Rightarrow> pyval \<Rightarrow> pyval \<Rightarrow> 'db users \<Rightarrow> (exn + bool) \<times> 'db users" where
  "delete_user_by_id svc user_id full_name s =
     (case table_call s
             (\<lambda>t. svc_delete_item svc t [''user_id'' \<mapsto> user_id, ''full_name'' \<mapsto> full_name]) of
        (Inr response, s') \<Rightarrow> (Inr True, s')
      | (Inl (ClientError code msg), s') \<Rightarrow>
          (Inr False,
           s'\<lparr>console := console s' @ [Print [Lit ''Error: '', Traceback (ClientError code msg)]]\<rparr>)
      | (Inl e, s') \<Rightarrow> (Inl e, s'))"

section \<open>Two remote services to run the methods against\<close>

text \<open>A service on which every call raises the exception \<open>e\<close>.\<close>

definition unavailable :: "exn \<Rightarrow> 'db service" where
  "unavailable e =
     \<lparr>svc_load = (\<lambda>t db. (Inl e, db)),
      svc_tables_all = (\<lambda>db. (([], Some e), db)),
      svc_create_table = (\<lambda>req db. (Inl e, db)),
      svc_wait_until_exists = (\<lambda>t db. (Inl e, db)),
      svc_delete = (\<lambda>t db. (Inl e, db)),
      svc_put_item = (\<lambda>t i db. (Inl e, db)),
      svc_query = (\<lambda>t q db. (Inl e, db)),
      svc_update_item = (\<lambda>t r db. (Inl e, db)),
      svc_delete_item = (\<lambda>t k db. (Inl e, db))\<rparr>"

text \<open>
  A service on which every call succeeds: it knows one table, finds no item, and
  answers an update with the values it was given for the placeholders.
\<close>

definition accepting :: "'db service" where
  "accepting =
     \<lparr>svc_load = (\<lambda>t db. (Inr (), db)),
      svc_tables_all = (\<lambda>db. (([Table ''users''], None), db)),
      svc_create_table = (\<lambda>req db. (Inr (Table (TableName req)), db)),
      svc_wait_until_exists = (\<lambda>t db. (Inr (), db)),
      svc_delete = (\<lambda>t db. (Inr (), db)),
      svc_put_item = (\<lambda>t i db. (Inr \<lparr>Items = None, Attributes = None\<rparr>, db)),
      svc_query = (\<lambda>t q db. (Inr \<lparr>Items = Some [], Attributes = None\<rparr>, db)),
      svc_update_item =
        (\<lambda>t r db. (Inr \<lparr>Items = None,
                          Attributes = Some (\<lambda>k. ExpressionAttributeValues r ('':'' @ k))\<rparr>, db)),
      svc_delete_item = (\<lambda>t k db. (Inr \<lparr>Items = None, Attributes = None\<rparr>, db))\<rparr>"

section \<open>A reference table\<close>

text \<open>
  Modelled from the spec: the put and the query of the remote table, which the
  DynamoDB service performs and no file of the repository contains. From the spec's
  data model: a table holds records, the pair (\<open>user_id\<close>, \<open>full_name\<close>) identifies a
  record, a put inserts or fully overwrites the record with the given key pair, and a
  query returns all records whose key attribute equals the given value. A table the
  service does not have answers with \<open>ResourceNotFoundException\<close>. Reads see every
  earlier write.
\<close>

type_synonym store = "table \<rightharpoonup> item list"

definition same_key :: "item \<Rightarrow> item \<Rightarrow> bool" where
  "same_key i j \<longleftrightarrow> i ''user_id'' = j ''user_id'' \<and> i ''full_name'' = j ''full_name''"

definition ref_put_item :: "table \<Rightarrow> item \<Rightarrow> (response, store) call" where
  "ref_put_item t i db =
     (case db t of
        None \<Rightarrow> (Inl (ClientError ''ResourceNotFoundException'' ''Requested resource not found''), db)
      | Some items \<Rightarrow>
          (Inr \<lparr>Items = None, Attributes = None\<rparr>,
           db(t \<mapsto> filter (\<lambda>j. \<not> same_key i j) items @ [i])))"

definition ref_query :: "table \<Rightarrow> query_request \<Rightarrow> (response, store) call" where
  "ref_query t q db =
     (case db t of
        None \<Rightarrow> (Inl (ClientError ''ResourceNotFoundException'' ''Requested resource not found''), db)
      | Some items \<Rightarrow>
          (case KeyConditionExpression q of
             KeyEq attr v \<Rightarrow>
               (Inr \<lparr>Items = Some (filter (\<lambda>j. j attr = Some v) items), Attributes = None\<rparr>, db)))"






section \<open>The loops\<close>

text \<open>
  The loop of \<open>list_tables\<close> appends the yielded tables to the result and one printed
  line for each to the console.
\<close>

lemma list_tables_loop_eq:
  "list_tables_loop ts tables out = (tables @ ts, out @ map (\<lambda>t. Print [Lit (tbl_name t)]) ts)"
  by (induction ts arbitrary: tables out) simp_all






section \<open>The reference update on the requests of \<open>update_user\<close>\<close>

















section \<open>The error policy\<close>

text \<open>
  The policy does not hold as "every table operation re-raises every provider error,
  every record operation swallows every error". On a \<open>ClientError\<close> with the code
  \<open>ResourceNotFoundException\<close>, \<open>exists\<close> returns \<open>False\<close> and neither logs nor raises; and
  \<open>delete_user_by_id\<close> lets an exception that is not a \<open>ClientError\<close> through (here a
  connection failure of the client library).
\<close>

theorem error_policy_counterexample:
  "exists (unavailable (ClientError ''ResourceNotFoundException'' ''Requested resource not found'')) (init ())
     = (Inr False, init ())
   \<and> delete_user_by_id (unavailable (OtherError ''EndpointConnectionError'')) (PStr ''u1'') (PStr ''Ann'') (init ())
     = (Inl (OtherError ''EndpointConnectionError''), init ())"
  by (simp add: exists_def delete_user_by_id_def table_call_def unavailable_def init_def)

text \<open>
  Claim C1, amended. For a provider error \<open>ClientError code msg\<close> raised by the remote
  call, the table operations \<open>exists\<close>, \<open>list_tables\<close>, \<open>create_table\<close> and \<open>delete_table\<close>
  log the code and the message and raise the same error, with one exception: on the
  code \<open>ResourceNotFoundException\<close>, \<open>exists\<close> returns \<open>False\<close> and logs nothing. The record
  operations \<open>add_user\<close>, \<open>query_by_user_id\<close>, \<open>query_by_user_name\<close> and \<open>update_user\<close>
  print the traceback and return \<open>None\<close> on every exception: one raised by the remote
  call (provider error or not), the \<open>AttributeError\<close> of an unbound \<open>self.table\<close>, and the
  \<open>KeyError\<close> of a response without the entry they read; they never raise.
  \<open>delete_user_by_id\<close> prints the traceback and returns \<open>False\<close> on a provider error.
\<close>

theorem error_policy:
  "(\<forall>db. svc_load svc (Table ''users'') (remote s) = (Inl (ClientError code msg), db) \<and>
         code \<noteq> ''ResourceNotFoundException'' \<longrightarrow>
         exists svc s =
           (Inl (ClientError code msg),
            s\<lparr>console := console s @
                 [LoggerError ''Couldn't check for existence of %s. Here's why: %s: %s'' [''users'', code, msg]],
              remote := db\<rparr>))
   \<and> (\<forall>db. svc_load svc (Table ''users'') (remote s)
                = (Inl (ClientError ''ResourceNotFoundException'' msg), db) \<longrightarrow>
         exists svc s = (Inr False, s\<lparr>remote := db\<rparr>))
   \<and> (\<forall>ts db. svc_tables_all svc (remote s) = ((ts, Some (ClientError code msg)), db) \<longrightarrow>
         list_tables svc s =
           (Inl (ClientError code msg),
            s\<lparr>console := console s @ map (\<lambda>t. Print [Lit (tbl_name t)]) ts @
                 [LoggerError ''Couldn't list tables. Here's why: %s: %s'' [code, msg]],
              remote := db\<rparr>))
   \<and> (\<forall>db. svc_create_table svc
           \<lparr>TableName = table_name,
            KeySchema = [(''user_id'', ''HASH''), (''full_name'', ''RANGE'')],
            AttributeDefinitions = [(''user_id'', ''S''), (''full_name'', ''S'')],
            BillingMode = ''PAY_PER_REQUEST''\<rparr> (remote s) = (Inl (ClientError code msg), db) \<longrightarrow>
         create_table svc table_name s =
           (Inl (ClientError code msg),
            s\<lparr>console := console s @
                 [LoggerError ''Couldn't create table %s. Here's why: %s: %s'' [table_name, code, msg]],
              remote := db\<rparr>))
   \<and> (\<forall>t db db'. svc_create_table svc
           \<lparr>TableName = table_name,
            KeySchema = [(''user_id'', ''HASH''), (''full_name'', ''RANGE'')],
            AttributeDefinitions = [(''user_id'', ''S''), (''full_name'', ''S'')],
            BillingMode = ''PAY_PER_REQUEST''\<rparr> (remote s) = (Inr t, db) \<and>
         svc_wait_until_exists svc t db = (Inl (ClientError code msg), db') \<longrightarrow>
         create_table svc table_name s =
           (Inl (ClientError code msg),
            s\<lparr>table := Some t,
              console := console s @
                 [LoggerError ''Couldn't create table %s. Here's why: %s: %s'' [table_name, code, msg]],
              remote := db'\<rparr>))
   \<and> (\<forall>t db. table s = Some t \<and> svc_delete svc t (remote s) = (Inl (ClientError code msg), db) \<longrightarrow>
         delete_table svc s =
           (Inl (ClientError code msg),
            s\<lparr>console := console s @
                 [LoggerError ''Couldn't delete table. Here's why: %s: %s'' [code, msg]],
              remote := db\<rparr>))
   \<and> (\<forall>t e db. table s = Some t \<and>
         svc_put_item svc t (add_user_item user_id full_name) (remote s) = (Inl e, db) \<longrightarrow>
         add_user svc user_id full_name s =
           (Inr None, s\<lparr>remote := db, console := console s @ [Print [Lit ''ERROR: '', Traceback e]]\<rparr>))
   \<and> (table s = None \<longrightarrow>
         add_user svc user_id full_name s =
           (Inr None, s\<lparr>console := console s @ [Print [Lit ''ERROR: '', Traceback AttributeError]]\<rparr>))
   \<and> (\<forall>t e db. table s = Some t \<and>
         svc_query svc t \<lparr>IndexName = None, KeyConditionExpression = KeyEq ''user_id'' user_id\<rparr>
           (remote s) = (Inl e, db) \<longrightarrow>
         query_by_user_id svc user_id s =
           (Inr None, s\<lparr>remote := db, console := console s @ [Print [Lit ''ERROR: '', Traceback e]]\<rparr>))
   \<and> (\<forall>t r db. table s = Some t \<and>
         svc_query svc t \<lparr>IndexName = None, KeyConditionExpression = KeyEq ''user_id'' user_id\<rparr>
           (remote s) = (Inr r, db) \<and> Items r = None \<longrightarrow>
         query_by_user_id svc user_id s =
           (Inr None, s\<lparr>remote := db,
                         console := console s @ [Print [Lit ''ERROR: '', Traceback (KeyError ''Items'')]]\<rparr>))
   \<and> (table s = None \<longrightarrow>
         query_by_user_id svc user_id s =
           (Inr None, s\<lparr>console := console s @ [Print [Lit ''ERROR: '', Traceback AttributeError]]\<rparr>))
   \<and> (\<forall>t e db. table s = Some t \<and>
         svc_query svc t \<lparr>IndexName = Some ''name-index'', KeyConditionExpression = KeyEq ''name'' name\<rparr>
           (remote s) = (Inl e, db) \<longrightarrow>
         query_by_user_name svc name s =
           (Inr None, s\<lparr>remote := db, console := console s @ [Print [Lit ''ERROR: '', Traceback e]]\<rparr>))
   \<and> (\<forall>t r db. table s = Some t \<and>
         svc_query svc t \<lparr>IndexName = Some ''name-index'', KeyConditionExpression = KeyEq ''name'' name\<rparr>
           (remote s) = (Inr r, db) \<and> Items r = None \<longrightarrow>
         query_by_user_name svc name s =
           (Inr None, s\<lparr>remote := db,
                         console := console s @ [Print [Lit ''ERROR: '', Traceback (KeyError ''Items'')]]\<rparr>))
   \<and> (table s = None \<longrightarrow>
         query_by_user_name svc name s =
           (Inr None, s\<lparr>console := console s @ [Print [Lit ''ERROR: '', Traceback AttributeError]]\<rparr>))
   \<and> (\<forall>t e db. table s = Some t \<and>
         svc_update_item svc t (update_item_args user_id full_name kwargs) (remote s) = (Inl e, db) \<longrightarrow>
         update_user svc user_id full_name kwargs s =
           (Inr None, s\<lparr>remote := db, console := console s @ [Print [Traceback e]]\<rparr>))
   \<and> (\<forall>t r db. table s = Some t \<and>
         svc_update_item svc t (update_item_args user_id full_name kwargs) (remote s) = (Inr r, db) \<and>
         Attributes r = None \<longrightarrow>
         update_user svc user_id full_name kwargs s =
           (Inr None, s\<lparr>remote := db, console := console s @ [Print [Traceback (KeyError ''Attributes'')]]\<rparr>))
   \<and> (table s = None \<longrightarrow>
         update_user svc user_id full_name kwargs s =
           (Inr None, s\<lparr>console := console s @ [Print [Traceback AttributeError]]\<rparr>))
   \<and> (\<forall>t db. table s = Some t \<and>
         svc_delete_item svc t [''user_id'' \<mapsto> user_id, ''full_name'' \<mapsto> full_name] (remote s)
           = (Inl (ClientError code msg), db) \<longrightarrow>
         delete_user_by_id svc user_id full_name s =
           (Inr False,
            s\<lparr>remote := db,
              console := console s @ [Print [Lit ''Error: '', Traceback (ClientError code msg)]]\<rparr>))
   \<and> (\<forall>e. fst (add_user svc user_id full_name s) \<noteq> Inl e)
   \<and> (\<forall>e. fst (query_by_user_id svc user_id s) \<noteq> Inl e)
   \<and> (\<forall>e. fst (query_by_user_name svc name s) \<noteq> Inl e)
   \<and> (\<forall>e. fst (update_user svc user_id full_name kwargs s) \<noteq> Inl e)"
  apply (intro conjI)
  subgoal by (auto simp: exists_def Let_def)
  subgoal by (auto simp: exists_def Let_def)
  subgoal by (auto simp: list_tables_def list_tables_loop_eq log_and_raise_def)
  subgoal by (auto simp: create_table_def log_and_raise_def)
  subgoal by (auto simp: create_table_def log_and_raise_def)
  subgoal by (auto simp: delete_table_def table_call_def log_and_raise_def)
  subgoal by (auto simp: add_user_def table_call_def print_and_none_def)
  subgoal by (auto simp: add_user_def table_call_def print_and_none_def)
  subgoal by (auto simp: query_by_user_id_def return_items_def table_call_def print_and_none_def)
  subgoal by (auto simp: query_by_user_id_def return_items_def table_call_def print_and_none_def)
  subgoal by (auto simp: query_by_user_id_def return_items_def table_call_def print_and_none_def)
  subgoal by (auto simp: query_by_user_name_def return_items_def table_call_def print_and_none_def)
  subgoal by (auto simp: query_by_user_name_def return_items_def table_call_def print_and_none_def)
  subgoal by (auto simp: query_by_user_name_def return_items_def table_call_def print_and_none_def)
  subgoal by (auto simp: update_user_def table_call_def print_and_none_def)
  subgoal by (auto simp: update_user_def table_call_def print_and_none_def)
  subgoal by (auto simp: update_user_def table_call_def print_and_none_def)
  subgoal by (auto simp: delete_user_by_id_def table_call_def)
  subgoal by (auto simp: add_user_def table_call_def print_and_none_def split: prod.splits sum.splits option.splits)
  subgoal by (auto simp: query_by_user_id_def return_items_def table_call_def print_and_none_def split: prod.splits sum.splits option.splits)
  subgoal by (auto simp: query_by_user_name_def return_items_def table_call_def print_and_none_def split: prod.splits sum.splits option.splits)
  subgoal by (auto simp: update_user_def table_call_def print_and_none_def split: prod.splits sum.splits option.splits)
  done

theorem error_policy_witness:
  "exists (unavailable (ClientError ''AccessDeniedException'' ''denied'')) (init ())
     = (Inl (ClientError ''AccessDeniedException'' ''denied''),
        (init ())\<lparr>console := [LoggerError ''Couldn't check for existence of %s. Here's why: %s: %s''
                                 [''users'', ''AccessDeniedException'', ''denied'']]\<rparr>)
   \<and> exists (unavailable (ClientError ''ResourceNotFoundException'' ''denied'')) (init ())
     = (Inr False, init ())
   \<and> list_tables (unavailable (ClientError ''AccessDeniedException'' ''denied'')) (init ())
     = (Inl (ClientError ''AccessDeniedException'' ''denied''),
        (init ())\<lparr>console := [LoggerError ''Couldn't list tables. Here's why: %s: %s''
                                 [''AccessDeniedException'', ''denied'']]\<rparr>)
   \<and> fst (create_table (unavailable (ClientError ''AccessDeniedException'' ''denied'')) ''users'' (init ()))
     = Inl (ClientError ''AccessDeniedException'' ''denied'')
   \<and> fst (create_table
            ((accepting :: unit service)\<lparr>svc_wait_until_exists :=
                 (\<lambda>t db. (Inl (ClientError ''AccessDeniedException'' ''denied''), db)),
                 svc_query := (\<lambda>t q db. (Inr \<lparr>Items = None, Attributes = None\<rparr>, db)),
                 svc_update_item := (\<lambda>t r db. (Inr \<lparr>Items = None, Attributes = None\<rparr>, db))\<rparr>)
            ''users'' (init ()))
     = Inl (ClientError ''AccessDeniedException'' ''denied'')
   \<and> fst (delete_table (unavailable (ClientError ''AccessDeniedException'' ''denied'')) (init ()))
     = Inl (ClientError ''AccessDeniedException'' ''denied'')
   \<and> add_user (unavailable (OtherError ''EndpointConnectionError'')) (PStr ''u1'') (PStr ''Ann'') (init ())
     = (Inr None, (init ())\<lparr>console := [Print [Lit ''ERROR: '', Traceback (OtherError ''EndpointConnectionError'')]]\<rparr>)
   \<and> fst (add_user accepting (PStr ''u1'') (PStr ''Ann'') ((init ())\<lparr>table := None\<rparr>)) = Inr None
   \<and> query_by_user_id (unavailable (OtherError ''EndpointConnectionError'')) (PStr ''u1'') (init ())
     = (Inr None, (init ())\<lparr>console := [Print [Lit ''ERROR: '', Traceback (OtherError ''EndpointConnectionError'')]]\<rparr>)
   \<and> fst (query_by_user_id
            ((accepting :: unit service)\<lparr>svc_wait_until_exists :=
                 (\<lambda>t db. (Inl (ClientError ''AccessDeniedException'' ''denied''), db)),
                 svc_query := (\<lambda>t q db. (Inr \<lparr>Items = None, Attributes = None\<rparr>, db)),
                 svc_update_item := (\<lambda>t r db. (Inr \<lparr>Items = None, Attributes = None\<rparr>, db))\<rparr>)
            (PStr ''u1'') (init ())) = Inr None
   \<and> fst (query_by_user_id accepting (PStr ''u1'') ((init ())\<lparr>table := None\<rparr>)) = Inr None
   \<and> fst (query_by_user_name (unavailable (OtherError ''EndpointConnectionError'')) (PStr ''Ann'') (init ()))
     = Inr None
   \<and> fst (query_by_user_name
            ((accepting :: unit service)\<lparr>svc_wait_until_exists :=
                 (\<lambda>t db. (Inl (ClientError ''AccessDeniedException'' ''denied''), db)),
                 svc_query := (\<lambda>t q db. (Inr \<lparr>Items = None, Attributes = None\<rparr>, db)),
                 svc_update_item := (\<lambda>t r db. (Inr \<lparr>Items = None, Attributes = None\<rparr>, db))\<rparr>)
            (PStr ''Ann'') (init ())) = Inr None
   \<and> fst (query_by_user_name accepting (PStr ''Ann'') ((init ())\<lparr>table := None\<rparr>)) = Inr None
   \<and> fst (update_user (unavailable (OtherError ''EndpointConnectionError'')) (PStr ''u1'') (PStr ''Ann'')
            [(''status'', PStr ''active'')] (init ()))
     = Inr None
   \<and> fst (update_user
            ((accepting :: unit service)\<lparr>svc_wait_until_exists :=
                 (\<lambda>t db. (Inl (ClientError ''AccessDeniedException'' ''denied''), db)),
                 svc_query := (\<lambda>t q db. (Inr \<lparr>Items = None, Attributes = None\<rparr>, db)),
                 svc_update_item := (\<lambda>t r db. (Inr \<lparr>Items = None, Attributes = None\<rparr>, db))\<rparr>)
            (PStr ''u1'') (PStr ''Ann'') [(''status'', PStr ''active'')] (init ())) = Inr None
   \<and> fst (update_user accepting (PStr ''u1'') (PStr ''Ann'') [(''status'', PStr ''active'')]
            ((init ())\<lparr>table := None\<rparr>)) = Inr None
   \<and> delete_user_by_id (unavailable (ClientError ''AccessDeniedException'' ''denied'')) (PStr ''u1'') (PStr ''Ann'') (init ())
     = (Inr False,
        (init ())\<lparr>console := [Print [Lit ''Error: '', Traceback (ClientError ''AccessDeniedException'' ''denied'')]]\<rparr>)"
  using error_policy [where svc = "unavailable (ClientError ''AccessDeniedException'' ''denied'')" and s = "init ()"
          and code = "''AccessDeniedException''" and msg = "''denied''" and table_name = "''users''"
          and user_id = "PStr ''u1''" and full_name = "PStr ''Ann''" and name = "PStr ''Ann''"
          and kwargs = "[(''status'', PStr ''active'')]"]
        error_policy [where svc = "unavailable (ClientError ''ResourceNotFoundException'' ''denied'')" and s = "init ()"
          and code = "''AccessDeniedException''" and msg = "''denied''" and table_name = "''users''"
          and user_id = "PStr ''u1''" and full_name = "PStr ''Ann''" and name = "PStr ''Ann''"
          and kwargs = "[(''status'', PStr ''active'')]"]
        error_policy [where svc = "unavailable (OtherError ''EndpointConnectionError'')" and s = "init ()"
          and code = "''AccessDeniedException''" and msg = "''denied''" and table_name = "''users''"
          and user_id = "PStr ''u1''" and full_name = "PStr ''Ann''" and name = "PStr ''Ann''"
          and kwargs = "[(''status'', PStr ''active'')]"]
        error_policy [where svc = "(accepting :: unit service)\<lparr>svc_wait_until_exists :=
                 (\<lambda>t db. (Inl (ClientError ''AccessDeniedException'' ''denied''), db)),
                 svc_query := (\<lambda>t q db. (Inr \<lparr>Items = None, Attributes = None\<rparr>, db)),
                 svc_update_item := (\<lambda>t r db. (Inr \<lparr>Items = None, Attributes = None\<rparr>, db))\<rparr>" and s = "init ()"
          and code = "''AccessDeniedException''" and msg = "''denied''" and table_name = "''users''"
          and user_id = "PStr ''u1''" and full_name = "PStr ''Ann''" and name = "PStr ''Ann''"
          and kwargs = "[(''status'', PStr ''active'')]"]
        error_policy [where svc = "accepting :: unit service" and s = "(init ())\<lparr>table := None\<rparr>"
          and code = "''AccessDeniedException''" and msg = "''denied''" and table_name = "''users''"
          and user_id = "PStr ''u1''" and full_name = "PStr ''Ann''" and name = "PStr ''Ann''"
          and kwargs = "[(''status'', PStr ''active'')]"]
  by (simp add: accepting_def unavailable_def init_def)

text \<open>
  Claim C2. \<open>delete_user_by_id\<close> does not turn every error into \<open>False\<close>: its handler
  is \<open>except ClientError\<close>. With \<open>self.table\<close> unbound, as it is after a successful
  \<open>delete_table\<close>, the call \<open>self.table.delete_item\<close> raises \<open>AttributeError\<close>, and the
  exception leaves the method with nothing printed.
\<close>

theorem delete_user_by_id_unbound_table:
  "delete_user_by_id svc user_id full_name (s\<lparr>table := None\<rparr>) = (Inl AttributeError, s\<lparr>table := None\<rparr>)
   \<and> fst (delete_user_by_id accepting (PStr ''u1'') (PStr ''Ann'') (snd (delete_table accepting (init ()))))
       = Inl AttributeError"
  by (simp add: delete_user_by_id_def delete_table_def table_call_def accepting_def init_def)

section \<open>Table management\<close>

text \<open>
  Claim C4. \<open>exists\<close> returns \<open>False\<close> exactly when loading the table raises a
  \<open>ClientError\<close> whose code is \<open>ResourceNotFoundException\<close>, and \<open>True\<close> exactly when the
  load succeeds; on success it binds \<open>self.table\<close> to the table \<open>users\<close>. Any other
  \<open>ClientError\<close> is logged with its code and message and raised again; an exception
  that is not a \<open>ClientError\<close> is raised as it is. On the not-found path and on both
  raising paths nothing but the service's state changes, and \<open>self.table\<close> changes
  only when the load succeeded.
\<close>

theorem exists_contract:
  "(fst (exists svc s) = Inr False \<longleftrightarrow>
      (\<exists>msg db. svc_load svc (Table ''users'') (remote s) =
                 (Inl (ClientError ''ResourceNotFoundException'' msg), db)))
   \<and> (fst (exists svc s) = Inr True \<longleftrightarrow>
        (\<exists>db. svc_load svc (Table ''users'') (remote s) = (Inr (), db)))
   \<and> (\<forall>db. svc_load svc (Table ''users'') (remote s) = (Inr (), db) \<longrightarrow>
         exists svc s = (Inr True, s\<lparr>table := Some (Table ''users''), remote := db\<rparr>))
   \<and> (\<forall>msg db. svc_load svc (Table ''users'') (remote s) =
                   (Inl (ClientError ''ResourceNotFoundException'' msg), db) \<longrightarrow>
         exists svc s = (Inr False, s\<lparr>remote := db\<rparr>))
   \<and> (\<forall>code msg db.
         svc_load svc (Table ''users'') (remote s) = (Inl (ClientError code msg), db) \<and>
         code \<noteq> ''ResourceNotFoundException'' \<longrightarrow>
         exists svc s =
           (Inl (ClientError code msg),
            s\<lparr>console := console s @
                 [LoggerError ''Couldn't check for existence of %s. Here's why: %s: %s''
                    [''users'', code, msg]],
              remote := db\<rparr>))
   \<and> (\<forall>e db. svc_load svc (Table ''users'') (remote s) = (Inl e, db) \<and>
         (\<forall>code msg. e \<noteq> ClientError code msg) \<longrightarrow>
         exists svc s = (Inl e, s\<lparr>remote := db\<rparr>))
   \<and> (fst (exists svc s) \<noteq> Inr True \<longrightarrow> table (snd (exists svc s)) = table s)
   \<and> (table (snd (exists svc s)) \<noteq> table s \<longrightarrow>
         (\<exists>db. svc_load svc (Table ''users'') (remote s) = (Inr (), db)))"
  apply (intro conjI)
  subgoal by (auto simp: exists_def Let_def split: prod.splits sum.splits exn.splits if_splits)
  subgoal by (auto simp: exists_def Let_def split: prod.splits sum.splits exn.splits if_splits)
  subgoal by (auto simp: exists_def Let_def)
  subgoal by (auto simp: exists_def Let_def)
  subgoal by (auto simp: exists_def Let_def)
  subgoal by (auto simp: exists_def Let_def split: exn.splits)
  subgoal by (auto simp: exists_def Let_def split: prod.splits sum.splits exn.splits if_splits)
  subgoal by (auto simp: exists_def Let_def split: prod.splits sum.splits exn.splits if_splits)
  done

theorem exists_contract_witness:
  "exists accepting ((init ())\<lparr>table := None\<rparr>) = (Inr True, init ())
   \<and> exists (unavailable (ClientError ''ResourceNotFoundException'' ''no such table''))
        ((init ())\<lparr>table := None\<rparr>) = (Inr False, (init ())\<lparr>table := None\<rparr>)
   \<and> exists (unavailable (ClientError ''AccessDeniedException'' ''denied'')) ((init ())\<lparr>table := None\<rparr>)
       = (Inl (ClientError ''AccessDeniedException'' ''denied''),
          (init ())\<lparr>table := None,
                    console := [LoggerError ''Couldn't check for existence of %s. Here's why: %s: %s''
                                  [''users'', ''AccessDeniedException'', ''denied'']]\<rparr>)
   \<and> exists (unavailable (OtherError ''EndpointConnectionError'')) ((init ())\<lparr>table := None\<rparr>)
       = (Inl (OtherError ''EndpointConnectionError''), (init ())\<lparr>table := None\<rparr>)"
  using exists_contract [of accepting "(init ())\<lparr>table := None\<rparr>"]
        exists_contract [of "unavailable (ClientError ''ResourceNotFoundException'' ''no such table'')" "(init ())\<lparr>table := None\<rparr>"]
        exists_contract [of "unavailable (ClientError ''AccessDeniedException'' ''denied'')" "(init ())\<lparr>table := None\<rparr>"]
        exists_contract [of "unavailable (OtherError ''EndpointConnectionError'')" "(init ())\<lparr>table := None\<rparr>"]
  by (simp add: accepting_def unavailable_def init_def)

text \<open>
  Claim C5. \<open>create_table\<close> asks for a table with the key schema \<open>user_id\<close> (\<open>HASH\<close>, the
  partition key) and \<open>full_name\<close> (\<open>RANGE\<close>, the sort key), both of attribute type \<open>S\<close>
  (string), and the billing mode \<open>PAY_PER_REQUEST\<close>. When the creation and the wait
  for the table both succeed, it returns the created table and \<open>self.table\<close> is that
  table; it returns a table only then, that is, only after \<open>wait_until_exists\<close> has
  returned. A \<open>ClientError\<close> raised by the creation or by the wait is logged with the
  table name, its code and its message, and raised again.
\<close>

theorem create_table_contract:
  "(\<forall>t db db'.
       svc_create_table svc
         \<lparr>TableName = table_name,
          KeySchema = [(''user_id'', ''HASH''), (''full_name'', ''RANGE'')],
          AttributeDefinitions = [(''user_id'', ''S''), (''full_name'', ''S'')],
          BillingMode = ''PAY_PER_REQUEST''\<rparr> (remote s) = (Inr t, db) \<and>
       svc_wait_until_exists svc t db = (Inr (), db') \<longrightarrow>
       create_table svc table_name s = (Inr t, s\<lparr>table := Some t, remote := db'\<rparr>))
   \<and> (\<forall>t. fst (create_table svc table_name s) = Inr t \<longrightarrow>
         table (snd (create_table svc table_name s)) = Some t \<and>
         (\<exists>db db'.
            svc_create_table svc
              \<lparr>TableName = table_name,
               KeySchema = [(''user_id'', ''HASH''), (''full_name'', ''RANGE'')],
               AttributeDefinitions = [(''user_id'', ''S''), (''full_name'', ''S'')],
               BillingMode = ''PAY_PER_REQUEST''\<rparr> (remote s) = (Inr t, db) \<and>
            svc_wait_until_exists svc t db = (Inr (), db')))
   \<and> (\<forall>code msg db.
         svc_create_table svc
           \<lparr>TableName = table_name,
            KeySchema = [(''user_id'', ''HASH''), (''full_name'', ''RANGE'')],
            AttributeDefinitions = [(''user_id'', ''S''), (''full_name'', ''S'')],
            BillingMode = ''PAY_PER_REQUEST''\<rparr> (remote s) = (Inl (ClientError code msg), db) \<longrightarrow>
         fst (create_table svc table_name s) = Inl (ClientError code msg) \<and>
         console (snd (create_table svc table_name s)) = console s @
           [LoggerError ''Couldn't create table %s. Here's why: %s: %s'' [table_name, code, msg]])
   \<and> (\<forall>t code msg db db'.
         svc_create_table svc
           \<lparr>TableName = table_name,
            KeySchema = [(''user_id'', ''HASH''), (''full_name'', ''RANGE'')],
            AttributeDefinitions = [(''user_id'', ''S''), (''full_name'', ''S'')],
            BillingMode = ''PAY_PER_REQUEST''\<rparr> (remote s) = (Inr t, db) \<and>
         svc_wait_until_exists svc t db = (Inl (ClientError code msg), db') \<longrightarrow>
         fst (create_table svc table_name s) = Inl (ClientError code msg) \<and>
         console (snd (create_table svc table_name s)) = console s @
           [LoggerError ''Couldn't create table %s. Here's why: %s: %s'' [table_name, code, msg]])"
  apply (intro conjI)
  subgoal by (auto simp: create_table_def split: prod.splits sum.splits)
  subgoal by (auto simp: create_table_def log_and_raise_def split: prod.splits sum.splits exn.splits)
  subgoal by (auto simp: create_table_def log_and_raise_def split: prod.splits sum.splits)
  subgoal by (auto simp: create_table_def log_and_raise_def split: prod.splits sum.splits)
  done

theorem create_table_contract_witness:
  "create_table accepting ''users'' ((init ())\<lparr>table := None\<rparr>) = (Inr (Table ''users''), init ())
   \<and> fst (create_table (unavailable (ClientError ''ResourceInUseException'' ''Table already exists: users''))
            ''users'' (init ()))
       = Inl (ClientError ''ResourceInUseException'' ''Table already exists: users'')
   \<and> console (snd (create_table (unavailable (ClientError ''ResourceInUseException'' ''Table already exists: users''))
            ''users'' (init ())))
       = [LoggerError ''Couldn't create table %s. Here's why: %s: %s''
            [''users'', ''ResourceInUseException'', ''Table already exists: users'']]
   \<and> fst (create_table
            ((accepting :: unit service)\<lparr>svc_wait_until_exists :=
                 (\<lambda>t db. (Inl (ClientError ''AccessDeniedException'' ''denied''), db))\<rparr>)
            ''users'' (init ()))
       = Inl (ClientError ''AccessDeniedException'' ''denied'')"
  using create_table_contract [of accepting "''users''" "(init ())\<lparr>table := None\<rparr>"]
        create_table_contract [of "unavailable (ClientError ''ResourceInUseException'' ''Table already exists: users'')"
                                   "''users''" "init ()"]
        create_table_contract [of "(accepting :: unit service)\<lparr>svc_wait_until_exists :=
                                      (\<lambda>t db. (Inl (ClientError ''AccessDeniedException'' ''denied''), db))\<rparr>"
                                   "''users''" "init ()"]
  by (simp add: accepting_def unavailable_def init_def)

text \<open>
  Claim C10. \<open>delete_table\<close> sets \<open>self.table\<close> to \<open>None\<close> when the remote delete
  succeeds. When the remote delete raises a \<open>ClientError\<close>, the error is logged and
  raised again and \<open>self.table\<close> is still the table it was. \<open>self.table\<close> changes only
  through a successful remote delete.
\<close>

theorem delete_table_contract:
  "(\<forall>t db. table s = Some t \<and> svc_delete svc t (remote s) = (Inr (), db) \<longrightarrow>
        delete_table svc s = (Inr (), s\<lparr>table := None, remote := db\<rparr>))
   \<and> (\<forall>t code msg db.
         table s = Some t \<and> svc_delete svc t (remote s) = (Inl (ClientError code msg), db) \<longrightarrow>
         fst (delete_table svc s) = Inl (ClientError code msg) \<and>
         table (snd (delete_table svc s)) = Some t \<and>
         console (snd (delete_table svc s)) = console s @
           [LoggerError ''Couldn't delete table. Here's why: %s: %s'' [code, msg]])
   \<and> (table (snd (delete_table svc s)) \<noteq> table s \<longrightarrow>
         table (snd (delete_table svc s)) = None \<and>
         (\<exists>t db. table s = Some t \<and> svc_delete svc t (remote s) = (Inr (), db)))"
  by (auto simp: delete_table_def table_call_def log_and_raise_def
           split: prod.splits sum.splits exn.splits option.splits)

theorem delete_table_contract_witness:
  "delete_table accepting (init ()) = (Inr (), (init ())\<lparr>table := None\<rparr>)
   \<and> fst (delete_table (unavailable (ClientError ''AccessDeniedException'' ''denied'')) (init ()))
       = Inl (ClientError ''AccessDeniedException'' ''denied'')
   \<and> table (snd (delete_table (unavailable (ClientError ''AccessDeniedException'' ''denied'')) (init ())))
       = Some (Table ''users'')
   \<and> console (snd (delete_table (unavailable (ClientError ''AccessDeniedException'' ''denied'')) (init ())))
       = [LoggerError ''Couldn't delete table. Here's why: %s: %s'' [''AccessDeniedException'', ''denied'']]"
  using delete_table_contract [of "init ()" accepting]
        delete_table_contract [of "init ()" "unavailable (ClientError ''AccessDeniedException'' ''denied'')"]
  by (simp add: accepting_def unavailable_def init_def)

section \<open>Records\<close>

text \<open>
  Claim C7. \<open>add_user\<close> makes one unconditional \<open>put_item\<close> call whose item has exactly
  the attributes \<open>user_id\<close> and \<open>full_name\<close>, with the values given. It returns the
  service's response when the call succeeds, and prints the traceback and returns
  \<open>None\<close> when the call raises or \<open>self.table\<close> is unbound. It never raises.
\<close>

theorem add_user_contract:
  "(\<forall>e. fst (add_user svc user_id full_name s) \<noteq> Inl e)
   \<and> (\<forall>t r db. table s = Some t \<and>
         svc_put_item svc t (add_user_item user_id full_name) (remote s) = (Inr r, db) \<longrightarrow>
         add_user svc user_id full_name s = (Inr (Some r), s\<lparr>remote := db\<rparr>))
   \<and> (\<forall>t e db. table s = Some t \<and>
         svc_put_item svc t (add_user_item user_id full_name) (remote s) = (Inl e, db) \<longrightarrow>
         add_user svc user_id full_name s =
           (Inr None, s\<lparr>remote := db, console := console s @ [Print [Lit ''ERROR: '', Traceback e]]\<rparr>))
   \<and> (table s = None \<longrightarrow> fst (add_user svc user_id full_name s) = Inr None)
   \<and> dom (add_user_item user_id full_name) = {''user_id'', ''full_name''}
   \<and> add_user_item user_id full_name ''user_id'' = Some user_id
   \<and> add_user_item user_id full_name ''full_name'' = Some full_name"
  by (auto simp: add_user_def add_user_item_def table_call_def print_and_none_def
           split: prod.splits sum.splits option.splits)

theorem add_user_contract_witness:
  "add_user accepting (PStr ''u1'') (PStr ''Ann'') (init ())
     = (Inr (Some \<lparr>Items = None, Attributes = None\<rparr>), init ())
   \<and> add_user (unavailable (OtherError ''EndpointConnectionError'')) (PStr ''u1'') (PStr ''Ann'') (init ())
     = (Inr None, (init ())\<lparr>console := [Print [Lit ''ERROR: '', Traceback (OtherError ''EndpointConnectionError'')]]\<rparr>)
   \<and> fst (add_user accepting (PStr ''u1'') (PStr ''Ann'') ((init ())\<lparr>table := None\<rparr>)) = Inr None"
  using add_user_contract [of accepting "PStr ''u1''" "PStr ''Ann''" "init ()"]
        add_user_contract [of "unavailable (OtherError ''EndpointConnectionError'')" "PStr ''u1''" "PStr ''Ann''" "init ()"]
        add_user_contract [of accepting "PStr ''u1''" "PStr ''Ann''" "(init ())\<lparr>table := None\<rparr>"]
  by (simp add: accepting_def unavailable_def init_def)



text \<open>
  Claim C6. Without keyword arguments the update expression is \<open>set\<close> followed by a
  space and nothing else, and the value map is empty. When the service raises on this
  request, whatever the exception, \<open>update_user\<close> prints the traceback and returns
  \<open>None\<close>.
\<close>

theorem update_user_no_fields:
  "UpdateExpression (update_item_args user_id full_name []) = ''set ''
   \<and> ExpressionAttributeValues (update_item_args user_id full_name []) = Map.empty
   \<and> (\<forall>t e db. table s = Some t \<and>
         svc_update_item svc t (update_item_args user_id full_name []) (remote s) = (Inl e, db) \<longrightarrow>
         update_user svc user_id full_name [] s =
           (Inr None, s\<lparr>remote := db, console := console s @ [Print [Traceback e]]\<rparr>))"
  by (auto simp: update_item_args_def update_user_def table_call_def print_and_none_def)

theorem update_user_no_fields_witness:
  "update_user (unavailable (ClientError ''ValidationException'' ''Invalid UpdateExpression''))
       (PStr ''u1'') (PStr ''Ann'') [] (init ())
     = (Inr None,
        (init ())\<lparr>console := [Print [Traceback (ClientError ''ValidationException'' ''Invalid UpdateExpression'')]]\<rparr>)"
  using update_user_no_fields [of "PStr ''u1''" "PStr ''Ann''" "init ()"
          "unavailable (ClientError ''ValidationException'' ''Invalid UpdateExpression'')"]
  by (simp add: unavailable_def init_def)




section \<open>Adding a user, then querying by id\<close>

text \<open>
  On the reference table, a pair that is not in the table can still share its
  \<open>user_id\<close> with a record that is: the query by id then returns both records, not one.
\<close>

theorem add_user_then_query_by_user_id_counterexample:
  "\<not> same_key (add_user_item (PStr ''u1'') (PStr ''Ann'')) (add_user_item (PStr ''u1'') (PStr ''Bob''))
   \<and> fst (query_by_user_id (accepting\<lparr>svc_put_item := ref_put_item, svc_query := ref_query\<rparr>) (PStr ''u1'')
          (snd (add_user (accepting\<lparr>svc_put_item := ref_put_item, svc_query := ref_query\<rparr>)
                  (PStr ''u1'') (PStr ''Ann'')
                  (init [Table ''users'' \<mapsto> [add_user_item (PStr ''u1'') (PStr ''Bob'')]]))))
     = Inr (Some [add_user_item (PStr ''u1'') (PStr ''Bob''), add_user_item (PStr ''u1'') (PStr ''Ann'')])"
  by (simp add: query_by_user_id_def add_user_def return_items_def table_call_def
                ref_put_item_def ref_query_def init_def add_user_item_def same_key_def)

text \<open>
  Claim C9, amended. On the reference table, with \<open>self.table\<close> bound to an existing
  table that holds no record with the given \<open>user_id\<close>, \<open>add_user\<close> followed by
  \<open>query_by_user_id\<close> returns exactly one record, the one with the given \<open>user_id\<close> and
  \<open>full_name\<close>. The other calls of the service are arbitrary.
\<close>

theorem add_user_then_query_by_user_id:
  "table s = Some t \<and> remote s t = Some items \<and> (\<forall>j \<in> set items. j ''user_id'' \<noteq> Some user_id) \<longrightarrow>
     fst (query_by_user_id (svc\<lparr>svc_put_item := ref_put_item, svc_query := ref_query\<rparr>) user_id
            (snd (add_user (svc\<lparr>svc_put_item := ref_put_item, svc_query := ref_query\<rparr>) user_id full_name s)))
       = Inr (Some [add_user_item user_id full_name])
     \<and> add_user_item user_id full_name ''user_id'' = Some user_id
     \<and> add_user_item user_id full_name ''full_name'' = Some full_name"
proof (intro impI)
  assume a: "table s = Some t \<and> remote s t = Some items \<and> (\<forall>j \<in> set items. j ''user_id'' \<noteq> Some user_id)"
  let ?i = "add_user_item user_id full_name"
  have key: "?i ''user_id'' = Some user_id" "?i ''full_name'' = Some full_name"
    by (simp_all add: add_user_item_def)
  have old: "filter (\<lambda>j. j ''user_id'' = Some user_id) (filter (\<lambda>j. \<not> same_key ?i j) items) = []"
    using a by (auto simp: filter_empty_conv)
  have "fst (query_by_user_id (svc\<lparr>svc_put_item := ref_put_item, svc_query := ref_query\<rparr>) user_id
            (snd (add_user (svc\<lparr>svc_put_item := ref_put_item, svc_query := ref_query\<rparr>) user_id full_name s)))
       = Inr (Some [?i])"
    using a old key
    by (simp add: query_by_user_id_def add_user_def return_items_def table_call_def
                  ref_put_item_def ref_query_def)
  with key show "fst (query_by_user_id (svc\<lparr>svc_put_item := ref_put_item, svc_query := ref_query\<rparr>) user_id
            (snd (add_user (svc\<lparr>svc_put_item := ref_put_item, svc_query := ref_query\<rparr>) user_id full_name s)))
       = Inr (Some [?i])
     \<and> ?i ''user_id'' = Some user_id \<and> ?i ''full_name'' = Some full_name"
    by simp
qed

theorem add_user_then_query_by_user_id_witness:
  "fst (query_by_user_id (accepting\<lparr>svc_put_item := ref_put_item, svc_query := ref_query\<rparr>) (PStr ''u1'')
          (snd (add_user (accepting\<lparr>svc_put_item := ref_put_item, svc_query := ref_query\<rparr>)
                  (PStr ''u1'') (PStr ''Ann'')
                  (init [Table ''users'' \<mapsto> [add_user_item (PStr ''u2'') (PStr ''Bob'')]]))))
     = Inr (Some [add_user_item (PStr ''u1'') (PStr ''Ann'')])"
  using add_user_then_query_by_user_id
          [of "init [Table ''users'' \<mapsto> [add_user_item (PStr ''u2'') (PStr ''Bob'')]]" "Table ''users''"
              "[add_user_item (PStr ''u2'') (PStr ''Bob'')]" "PStr ''u1''" accepting "PStr ''Ann''"]
  by (simp add: init_def add_user_item_def)

end
